theory Spec2Isabelle
  imports Complex_Main "HOL-Library.AList"
begin

section \<open>Numbers, the clock and exceptions\<close>

text \<open>
  The Python code computes with \<open>float\<close>. The embedding computes with exact reals: every
  arithmetic operation of the source is the same operation on \<open>real\<close>, so the binary
  rounding of IEEE doubles, infinities and NaN are outside the model. \<open>datetime.now\<close> is an
  explicit argument \<open>now\<close> of every operation that reads the clock. An exception of the
  source is a value of \<open>py_error\<close>.
\<close>

type_synonym datetime = nat

datatype py_error = ZeroDivisionError | StrategyException

text \<open>
  Python's \<open>round(x, n)\<close> on a float: the decimal with \<open>n\<close> places nearest to \<open>x\<close>,
  ties to the even neighbour.
\<close>

definition round_half_even :: "real \<Rightarrow> int" where
  "round_half_even x =
     (let f = \<lfloor>x\<rfloor>; d = x - of_int f
      in if d < 1 / 2 then f
         else if 1 / 2 < d then f + 1
         else if even f then f else f + 1)"

definition py_round :: "real \<Rightarrow> nat \<Rightarrow> real" where
  "py_round x n = of_int (round_half_even (x * 10 ^ n)) / 10 ^ n"

section \<open>strategy\_interface.py: the signal\<close>

datatype SignalType = BUY | SELL | HOLD | CLOSE_LONG | CLOSE_SHORT

record TradingSignal =
  signal_type :: SignalType
  symbol :: string
  price :: real
  quantity :: real
  stop_loss :: real
  take_profit_1 :: real
  take_profit_2 :: real
  confidence :: real
  reason :: string
  timestamp :: datetime
  metadata :: "(string \<times> string) list option"

section \<open>market\_data.py: candles and tickers\<close>

record OHLCVData =
  timestamp :: datetime
  "open" :: real
  high :: real
  low :: real
  close :: real
  volume :: real
  symbol :: string

record TickerData =
  symbol :: string
  price :: real
  bid :: real
  ask :: real
  volume_24h :: real
  change_24h :: real
  timestamp :: datetime

section \<open>risk\_manager.py: positions\<close>

datatype PositionStatus = OPEN | CLOSED | PARTIAL

record Position =
  symbol :: string
  side :: string
  entry_price :: real
  quantity :: real
  stop_loss :: real
  take_profit_1 :: real
  take_profit_2 :: real
  current_price :: real
  status :: PositionStatus
  tp1_hit :: bool
  tp2_hit :: bool
  remaining_quantity :: real
  opened_at :: datetime
  updated_at :: datetime
  unrealized_pnl :: real
  realized_pnl :: real
  strategy :: string
  signal_confidence :: real

text \<open>
  The dataclass constructor as \<open>open_position\<close> calls it: the fields it does not pass take
  their defaults, then \<open>__post_init__\<close> fills the two timestamps from the clock and
  replaces a remaining quantity of zero by the quantity.
\<close>

definition Position_post_init :: "datetime \<Rightarrow> Position \<Rightarrow> Position" where
  "Position_post_init now p =
     (let p1 = p\<lparr>opened_at := now\<rparr>;
          p2 = p1\<lparr>updated_at := opened_at p1\<rparr>
      in if remaining_quantity p2 = 0 then p2\<lparr>remaining_quantity := Position.quantity p2\<rparr>
         else p2)"

definition new_Position ::
  "datetime \<Rightarrow> string \<Rightarrow> string \<Rightarrow> real \<Rightarrow> real \<Rightarrow> real \<Rightarrow> real \<Rightarrow> real \<Rightarrow> real
     \<Rightarrow> string \<Rightarrow> real \<Rightarrow> Position" where
  "new_Position now symb sd entry qty sl tp1 tp2 cur strat conf =
     Position_post_init now
       \<lparr>Position.symbol = symb, side = sd, entry_price = entry, Position.quantity = qty,
        Position.stop_loss = sl, Position.take_profit_1 = tp1, Position.take_profit_2 = tp2,
        current_price = cur, status = OPEN, tp1_hit = False, tp2_hit = False,
        remaining_quantity = 0, opened_at = 0, updated_at = 0,
        unrealized_pnl = 0, realized_pnl = 0, strategy = strat, signal_confidence = conf\<rparr>"

definition update_price :: "datetime \<Rightarrow> Position \<Rightarrow> real \<Rightarrow> Position" where
  "update_price now p new_price =
     (let p1 = p\<lparr>current_price := new_price, updated_at := now\<rparr>;
          price_diff = (if side p1 = ''LONG'' then new_price - entry_price p1
                        else entry_price p1 - new_price)
      in p1\<lparr>unrealized_pnl := price_diff * remaining_quantity p1\<rparr>)"

definition get_total_pnl :: "Position \<Rightarrow> real" where
  "get_total_pnl p = realized_pnl p + unrealized_pnl p"

section \<open>risk\_manager.py: the risk manager\<close>

text \<open>
  The dictionary \<open>positions\<close> is an association list in insertion order:
  \<open>d[k] = v\<close> is \<open>AList.update\<close> (replace in place, or append), \<open>del d[k]\<close> is
  \<open>AList.delete\<close>, \<open>k in d\<close> is \<open>map_of d k \<noteq> None\<close>.
\<close>

record RiskManager =
  initial_capital :: real
  current_capital :: real
  max_risk_per_trade :: real
  max_portfolio_risk :: real
  max_drawdown :: real
  max_positions :: int
  min_risk_reward :: real
  positions :: "(string \<times> Position) list"
  position_history :: "Position list"
  total_trades :: int
  winning_trades :: int
  total_fees :: real
  max_historical_capital :: real

definition RiskManager_init :: "real \<Rightarrow> real \<Rightarrow> real \<Rightarrow> real \<Rightarrow> int \<Rightarrow> real \<Rightarrow> RiskManager" where
  "RiskManager_init capital risk_per_trade portfolio_risk drawdown n_positions risk_reward =
     \<lparr>initial_capital = capital, current_capital = capital,
      max_risk_per_trade = risk_per_trade, max_portfolio_risk = portfolio_risk,
      max_drawdown = drawdown, max_positions = n_positions, min_risk_reward = risk_reward,
      positions = [], position_history = [],
      total_trades = 0, winning_trades = 0, total_fees = 0,
      max_historical_capital = capital\<rparr>"

definition position_risk :: "Position \<Rightarrow> real" where
  "position_risk p = \<bar>entry_price p - Position.stop_loss p\<bar> * remaining_quantity p"

text \<open>The loop of \<open>get_portfolio_risk\<close>, with its accumulator \<open>total_risk\<close>.\<close>

fun total_risk_loop :: "real \<Rightarrow> Position list \<Rightarrow> real" where
  "total_risk_loop total_risk [] = total_risk"
| "total_risk_loop total_risk (p # ps) = total_risk_loop (total_risk + position_risk p) ps"

definition get_portfolio_risk :: "RiskManager \<Rightarrow> real" where
  "get_portfolio_risk rm =
     (let total_risk = total_risk_loop 0 (map snd (positions rm))
      in if current_capital rm = 0 then 0 else total_risk / current_capital rm)"

text \<open>
  \<open>get_current_drawdown\<close> raises the stored peak before it divides by it; a negative
  peak raised to a current capital of zero makes the division raise.
\<close>

definition get_current_drawdown :: "RiskManager \<Rightarrow> (py_error + real) \<times> RiskManager" where
  "get_current_drawdown rm =
     (if max_historical_capital rm = 0 then (Inr 0, rm)
      else let rm1 = rm\<lparr>max_historical_capital :=
                           max (max_historical_capital rm) (current_capital rm)\<rparr>
           in if max_historical_capital rm1 = 0 then (Inl ZeroDivisionError, rm1)
              else (Inr (max 0 ((max_historical_capital rm1 - current_capital rm1)
                                 / max_historical_capital rm1)), rm1))"

definition calculate_risk_reward_ratio :: "RiskManager \<Rightarrow> TradingSignal \<Rightarrow> real" where
  "calculate_risk_reward_ratio rm signal =
     (let risk = \<bar>TradingSignal.price signal - TradingSignal.stop_loss signal\<bar>;
          reward = \<bar>TradingSignal.take_profit_1 signal - TradingSignal.price signal\<bar>
      in if risk = 0 then 0 else reward / risk)"

definition can_open_position ::
  "RiskManager \<Rightarrow> TradingSignal \<Rightarrow> (py_error + bool) \<times> RiskManager" where
  "can_open_position rm signal =
     (if int (length (positions rm)) \<ge> max_positions rm then (Inr False, rm)
      else if map_of (positions rm) (TradingSignal.symbol signal) \<noteq> None then (Inr False, rm)
      else if get_portfolio_risk rm \<ge> max_portfolio_risk rm then (Inr False, rm)
      else case get_current_drawdown rm of
             (Inl e, rm1) \<Rightarrow> (Inl e, rm1)
           | (Inr drawdown, rm1) \<Rightarrow>
               if drawdown \<ge> max_drawdown rm1 then (Inr False, rm1)
               else if calculate_risk_reward_ratio rm1 signal < min_risk_reward rm1
                    then (Inr False, rm1)
                    else (Inr True, rm1))"

definition calculate_position_size :: "RiskManager \<Rightarrow> TradingSignal \<Rightarrow> py_error + real" where
  "calculate_position_size rm signal =
     (let max_risk_amount = current_capital rm * max_risk_per_trade rm;
          price_diff = \<bar>TradingSignal.price signal - TradingSignal.stop_loss signal\<bar>
      in if price_diff = 0 then Inr 0
         else let position_size = max_risk_amount / price_diff
              in if TradingSignal.price signal = 0 then Inl ZeroDivisionError
                 else let max_affordable = (current_capital rm * 0.95) / TradingSignal.price signal
                      in Inr (py_round (min position_size max_affordable) 8))"

definition open_position ::
  "datetime \<Rightarrow> RiskManager \<Rightarrow> TradingSignal \<Rightarrow> real \<Rightarrow> Position \<times> RiskManager" where
  "open_position now rm signal qty =
     (let sd = (if signal_type signal = BUY then ''LONG'' else ''SHORT'');
          position = new_Position now (TradingSignal.symbol signal) sd
                       (TradingSignal.price signal) qty
                       (TradingSignal.stop_loss signal)
                       (TradingSignal.take_profit_1 signal)
                       (TradingSignal.take_profit_2 signal)
                       (TradingSignal.price signal)
                       (case metadata signal of
                          None \<Rightarrow> ''''
                        | Some m \<Rightarrow> (if m = [] then ''''
                                     else case map_of m ''strategy'' of
                                            None \<Rightarrow> '''' | Some v \<Rightarrow> v))
                       (confidence signal)
      in (position,
          rm\<lparr>positions := AList.update (TradingSignal.symbol signal) position (positions rm),
             total_trades := total_trades rm + 1\<rparr>))"

definition should_stop_loss :: "Position \<Rightarrow> bool" where
  "should_stop_loss p =
     (if side p = ''LONG'' then current_price p \<le> Position.stop_loss p
      else current_price p \<ge> Position.stop_loss p)"

definition should_take_profit_1 :: "Position \<Rightarrow> bool" where
  "should_take_profit_1 p =
     (if side p = ''LONG'' then current_price p \<ge> Position.take_profit_1 p
      else current_price p \<le> Position.take_profit_1 p)"

definition should_take_profit_2 :: "Position \<Rightarrow> bool" where
  "should_take_profit_2 p =
     (if side p = ''LONG'' then current_price p \<ge> Position.take_profit_2 p
      else current_price p \<le> Position.take_profit_2 p)"

definition update_position ::
  "datetime \<Rightarrow> RiskManager \<Rightarrow> string \<Rightarrow> real \<Rightarrow> string option \<times> RiskManager" where
  "update_position now rm symb price_now =
     (case map_of (positions rm) symb of
        None \<Rightarrow> (None, rm)
      | Some p \<Rightarrow>
          (let position = update_price now p price_now;
               rm1 = rm\<lparr>positions := AList.update symb position (positions rm)\<rparr>
           in if should_stop_loss position then (Some ''stop_loss'', rm1)
              else if \<not> tp1_hit position \<and> should_take_profit_1 position
                   then (Some ''take_profit_1'', rm1)
              else if tp1_hit position \<and> \<not> tp2_hit position \<and> should_take_profit_2 position
                   then (Some ''take_profit_2'', rm1)
              else (None, rm1)))"

text \<open>
  \<open>close_position\<close> mutates the position object held by the dictionary; the model writes
  the mutated position back under its key, or moves it to the history when it is closed.
  \<open>close_pnl p f\<close> is the local \<open>realized_pnl\<close> of the source.
\<close>

definition close_pnl :: "Position \<Rightarrow> real \<Rightarrow> real" where
  "close_pnl p partial_close =
     (let close_quantity = remaining_quantity p * partial_close;
          price_diff = (if side p = ''LONG'' then current_price p - entry_price p
                        else entry_price p - current_price p)
      in price_diff * close_quantity)"

definition close_position ::
  "RiskManager \<Rightarrow> string \<Rightarrow> string \<Rightarrow> real \<Rightarrow> Position option \<times> RiskManager" where
  "close_position rm symb why partial_close =
     (case map_of (positions rm) symb of
        None \<Rightarrow> (None, rm)
      | Some p \<Rightarrow>
          (let close_quantity = remaining_quantity p * partial_close;
               pnl = close_pnl p partial_close;
               p1 = p\<lparr>realized_pnl := realized_pnl p + pnl,
                      remaining_quantity := remaining_quantity p - close_quantity\<rparr>;
               rm1 = rm\<lparr>current_capital := current_capital rm + pnl\<rparr>;
               rm2 = (if pnl > 0 then rm1\<lparr>winning_trades := winning_trades rm1 + 1\<rparr> else rm1);
               p2 = (if why = ''take_profit_1''
                     then p1\<lparr>tp1_hit := True, status := PARTIAL,
                             Position.stop_loss := entry_price p1\<rparr>
                     else if why = ''take_profit_2''
                     then p1\<lparr>tp2_hit := True, status := CLOSED\<rparr>
                     else if partial_close \<ge> 1 then p1\<lparr>status := CLOSED\<rparr>
                     else p1)
           in if remaining_quantity p2 \<le> 0.001
              then (let p3 = p2\<lparr>status := CLOSED\<rparr>
                    in (Some p3, rm2\<lparr>position_history := position_history rm2 @ [p3],
                                     positions := AList.delete symb (positions rm2)\<rparr>))
              else (Some p2, rm2\<lparr>positions := AList.update symb p2 (positions rm2)\<rparr>)))"

record PortfolioSummary =
  s_initial_capital :: real
  s_current_capital :: real
  s_total_pnl :: real
  s_unrealized_pnl :: real
  s_total_trades :: int
  s_winning_trades :: int
  s_win_rate :: real
  s_active_positions :: int
  s_portfolio_risk :: real
  s_current_drawdown :: real
  s_max_historical_capital :: real

definition win_rate_of :: "RiskManager \<Rightarrow> real" where
  "win_rate_of rm =
     (if total_trades rm > 0
      then of_int (winning_trades rm) / of_int (total_trades rm) * 100
      else 0)"

definition get_portfolio_summary ::
  "RiskManager \<Rightarrow> (py_error + PortfolioSummary) \<times> RiskManager" where
  "get_portfolio_summary rm =
     (let total_unrealized_pnl = sum_list (map (unrealized_pnl \<circ> snd) (positions rm));
          total_realized_pnl = current_capital rm - initial_capital rm;
          win_rate = win_rate_of rm;
          risk = get_portfolio_risk rm
      in case get_current_drawdown rm of
           (Inl e, rm1) \<Rightarrow> (Inl e, rm1)
         | (Inr drawdown, rm1) \<Rightarrow>
             (Inr \<lparr>s_initial_capital = initial_capital rm1,
                   s_current_capital = current_capital rm1,
                   s_total_pnl = total_realized_pnl,
                   s_unrealized_pnl = total_unrealized_pnl,
                   s_total_trades = total_trades rm1,
                   s_winning_trades = winning_trades rm1,
                   s_win_rate = py_round win_rate 2,
                   s_active_positions = int (length (positions rm1)),
                   s_portfolio_risk = py_round (risk * 100) 2,
                   s_current_drawdown = py_round (drawdown * 100) 2,
                   s_max_historical_capital = max_historical_capital rm1\<rparr>, rm1))"

definition get_active_positions :: "RiskManager \<Rightarrow> Position list" where
  "get_active_positions rm = map snd (positions rm)"

section \<open>trading\_engine.py: the engine\<close>

text \<open>
  The Strategy Contract is a parameter: \<open>upd\<close> takes the strategy's state and a candle and
  returns the state it leaves behind with either the exception it raised or the optional
  signal. What the logger is given is the list \<open>log\<close>, and what
  \<open>_notify_trade_callbacks\<close> hands to the registered callbacks is the list \<open>events\<close>
  (the callbacks themselves are external, and their exceptions are caught one by one).
  The constructor either sets \<open>strategy\<close> and \<open>risk_manager\<close> or raises, so both are
  plain fields and the source's tests for their presence are always true.
\<close>

type_synonym 'st strategy_update = "'st \<Rightarrow> OHLCVData \<Rightarrow> (py_error + TradingSignal option) \<times> 'st"

datatype log_record =
    SignalGenerated SignalType real
  | CannotOpenPosition
  | InvalidPositionSize real
  | ExecutingOrder SignalType real string real
  | PositionOpened string
  | PositionExit string string real
  | PositionManuallyClosed string string
  | ErrorProcessingMarketData py_error
  | ErrorProcessingSignal py_error
  | TradingEnabled
  | TradingDisabled

datatype trade_event =
    OpenPositionEvent TradingSignal Position datetime
  | ExitEvent string string Position datetime

record 'st TradingEngine =
  strategy :: 'st
  risk_manager :: RiskManager
  is_running :: bool
  is_trading_enabled :: bool
  last_signal :: "TradingSignal option"
  signals_generated :: int
  trades_executed :: int
  start_time :: "datetime option"
  events :: "trade_event list"
  log :: "log_record list"

definition TradingEngine_init :: "'st \<Rightarrow> RiskManager \<Rightarrow> 'st TradingEngine" where
  "TradingEngine_init st rm =
     \<lparr>TradingEngine.strategy = st, risk_manager = rm, is_running = False,
      is_trading_enabled = True, last_signal = None, signals_generated = 0,
      trades_executed = 0, start_time = None, events = [], log = []\<rparr>"

definition logger :: "log_record \<Rightarrow> 'st TradingEngine \<Rightarrow> 'st TradingEngine" where
  "logger r e = e\<lparr>log := log e @ [r]\<rparr>"

definition notify_trade_callbacks :: "trade_event \<Rightarrow> 'st TradingEngine \<Rightarrow> 'st TradingEngine" where
  "notify_trade_callbacks ev e = e\<lparr>events := events e @ [ev]\<rparr>"

definition execute_trade ::
  "datetime \<Rightarrow> 'st TradingEngine \<Rightarrow> TradingSignal \<Rightarrow> real \<Rightarrow> 'st TradingEngine" where
  "execute_trade now e signal qty =
     (let e1 = logger (ExecutingOrder (signal_type signal) qty (TradingSignal.symbol signal)
                         (TradingSignal.price signal)) e;
          (position, rm1) = open_position now (risk_manager e1) signal qty;
          e2 = e1\<lparr>risk_manager := rm1, trades_executed := trades_executed e1 + 1\<rparr>;
          e3 = notify_trade_callbacks (OpenPositionEvent signal position now) e2
      in logger (PositionOpened (Position.symbol position)) e3)"

definition engine_close_position ::
  "'st TradingEngine \<Rightarrow> string \<Rightarrow> string \<Rightarrow> 'st TradingEngine" where
  "engine_close_position e symb why =
     (if map_of (positions (risk_manager e)) symb \<noteq> None
      then (let (closed_position, rm1) = close_position (risk_manager e) symb why 1;
                e1 = e\<lparr>risk_manager := rm1\<rparr>
            in case closed_position of
                 None \<Rightarrow> e1
               | Some p \<Rightarrow> logger (PositionManuallyClosed symb why) e1)
      else e)"

definition process_signal ::
  "datetime \<Rightarrow> 'st TradingEngine \<Rightarrow> TradingSignal \<Rightarrow> 'st TradingEngine" where
  "process_signal now e signal =
     (if signal_type signal \<in> set [BUY, SELL]
      then (case can_open_position (risk_manager e) signal of
              (Inl err, rm1) \<Rightarrow> logger (ErrorProcessingSignal err) (e\<lparr>risk_manager := rm1\<rparr>)
            | (Inr ok, rm1) \<Rightarrow>
                (let e1 = e\<lparr>risk_manager := rm1\<rparr>
                 in if \<not> ok then logger CannotOpenPosition e1
                    else case calculate_position_size (risk_manager e1) signal of
                           Inl err \<Rightarrow> logger (ErrorProcessingSignal err) e1
                         | Inr qty \<Rightarrow>
                             if qty \<le> 0 then logger (InvalidPositionSize qty) e1
                             else execute_trade now e1 signal qty))
      else if signal_type signal \<in> set [CLOSE_LONG, CLOSE_SHORT]
      then engine_close_position e (TradingSignal.symbol signal) ''manual_close''
      else e)"

definition handle_position_exit ::
  "datetime \<Rightarrow> 'st TradingEngine \<Rightarrow> string \<Rightarrow> string \<Rightarrow> 'st TradingEngine" where
  "handle_position_exit now e symb exit_action =
     (let partial_close = (if exit_action = ''take_profit_1'' then 0.5 else 1);
          (closed_position, rm1) = close_position (risk_manager e) symb exit_action partial_close;
          e1 = e\<lparr>risk_manager := rm1\<rparr>
      in case closed_position of
           None \<Rightarrow> e1
         | Some p \<Rightarrow>
             notify_trade_callbacks (ExitEvent exit_action symb p now)
               (logger (PositionExit exit_action symb (get_total_pnl p)) e1))"

text \<open>The loop of \<open>_update_positions\<close> over the snapshot \<open>symbols_to_process\<close>.\<close>

fun update_positions_loop ::
  "datetime \<Rightarrow> real \<Rightarrow> 'st TradingEngine \<Rightarrow> string list \<Rightarrow> 'st TradingEngine" where
  "update_positions_loop now price_now e [] = e"
| "update_positions_loop now price_now e (symb # rest) =
     (let (exit_action, rm1) = update_position now (risk_manager e) symb price_now;
          e1 = e\<lparr>risk_manager := rm1\<rparr>;
          e2 = (case exit_action of
                  None \<Rightarrow> e1
                | Some a \<Rightarrow> if a = [] then e1 else handle_position_exit now e1 symb a)
      in update_positions_loop now price_now e2 rest)"

definition update_positions :: "datetime \<Rightarrow> 'st TradingEngine \<Rightarrow> real \<Rightarrow> 'st TradingEngine" where
  "update_positions now e price_now =
     update_positions_loop now price_now e (map fst (positions (risk_manager e)))"

definition on_market_data ::
  "'st strategy_update \<Rightarrow> datetime \<Rightarrow> 'st TradingEngine \<Rightarrow> OHLCVData \<Rightarrow> 'st TradingEngine" where
  "on_market_data upd now e ohlcv =
     (if \<not> is_trading_enabled e then e
      else case upd (TradingEngine.strategy e) ohlcv of
             (Inl err, st1) \<Rightarrow>
               logger (ErrorProcessingMarketData err) (e\<lparr>TradingEngine.strategy := st1\<rparr>)
           | (Inr sg, st1) \<Rightarrow>
               (let e1 = e\<lparr>TradingEngine.strategy := st1\<rparr>;
                    e2 = (case sg of
                            None \<Rightarrow> e1
                          | Some signal \<Rightarrow>
                              process_signal now
                                (logger (SignalGenerated (signal_type signal)
                                           (TradingSignal.price signal))
                                   (e1\<lparr>signals_generated := signals_generated e1 + 1,
                                       last_signal := Some signal\<rparr>))
                                signal)
                in update_positions now e2 (close ohlcv)))"

definition on_ticker_data ::
  "datetime \<Rightarrow> 'st TradingEngine \<Rightarrow> TickerData \<Rightarrow> 'st TradingEngine" where
  "on_ticker_data now e ticker = update_positions now e (TickerData.price ticker)"

definition enable_trading :: "'st TradingEngine \<Rightarrow> 'st TradingEngine" where
  "enable_trading e = logger TradingEnabled (e\<lparr>is_trading_enabled := True\<rparr>)"

definition disable_trading :: "'st TradingEngine \<Rightarrow> 'st TradingEngine" where
  "disable_trading e = logger TradingDisabled (e\<lparr>is_trading_enabled := False\<rparr>)"

section \<open>Sequences of risk-manager operations\<close>

text \<open>
  One constructor for each public method of \<open>RiskManager\<close>; \<open>rm_step\<close> is the state the
  call leaves behind, \<open>rm_run\<close> a sequence of calls.
\<close>

datatype rm_op =
    OpOpen datetime TradingSignal real
  | OpUpdate datetime string real
  | OpClose string string real
  | OpCanOpen TradingSignal
  | OpPositionSize TradingSignal
  | OpRiskReward TradingSignal
  | OpPortfolioRisk
  | OpDrawdown
  | OpSummary
  | OpActivePositions

fun rm_step :: "RiskManager \<Rightarrow> rm_op \<Rightarrow> RiskManager" where
  "rm_step rm (OpOpen now signal qty) = snd (open_position now rm signal qty)"
| "rm_step rm (OpUpdate now symb price_now) = snd (update_position now rm symb price_now)"
| "rm_step rm (OpClose symb why partial_close) = snd (close_position rm symb why partial_close)"
| "rm_step rm (OpCanOpen signal) = snd (can_open_position rm signal)"
| "rm_step rm (OpPositionSize signal) = rm"
| "rm_step rm (OpRiskReward signal) = rm"
| "rm_step rm OpPortfolioRisk = rm"
| "rm_step rm OpDrawdown = snd (get_current_drawdown rm)"
| "rm_step rm OpSummary = snd (get_portfolio_summary rm)"
| "rm_step rm OpActivePositions = rm"

fun rm_run :: "RiskManager \<Rightarrow> rm_op list \<Rightarrow> RiskManager" where
  "rm_run rm [] = rm"
| "rm_run rm (op # ops) = rm_run (rm_step rm op) ops"

fun is_close :: "rm_op \<Rightarrow> bool" where
  "is_close (OpClose symb why partial_close) = True"
| "is_close other = False"

text \<open>
  The realized P&L delta of one call: by how much the call raises the \<open>realized_pnl\<close>
  field of the position it closes (wholly or in part), and zero for a call that closes
  nothing.
\<close>

fun realized_delta :: "RiskManager \<Rightarrow> rm_op \<Rightarrow> real" where
  "realized_delta rm (OpClose symb why partial_close) =
     (case (map_of (positions rm) symb, fst (close_position rm symb why partial_close)) of
        (Some p, Some p') \<Rightarrow> realized_pnl p' - realized_pnl p
      | other \<Rightarrow> 0)"
| "realized_delta rm other = 0"

fun realized_deltas :: "RiskManager \<Rightarrow> rm_op list \<Rightarrow> real list" where
  "realized_deltas rm [] = []"
| "realized_deltas rm (op # ops) = realized_delta rm op # realized_deltas (rm_step rm op) ops"

section \<open>Concrete runs\<close>

text \<open>
  The signal of the specification's scenario (LONG NOICEUSDT at 1.0, stop 0.95, targets
  1.10 and 1.20), a ledger with the engine's limits, and the engine holding the position
  of 10 units opened from that signal.
\<close>

definition noice_signal :: TradingSignal where
  "noice_signal =
     \<lparr>signal_type = BUY, TradingSignal.symbol = ''NOICEUSDT'', TradingSignal.price = 1.0,
      TradingSignal.quantity = 0, TradingSignal.stop_loss = 0.95,
      TradingSignal.take_profit_1 = 1.10, TradingSignal.take_profit_2 = 1.20,
      confidence = 0.8, reason = ''breakout'', TradingSignal.timestamp = 0, metadata = None\<rparr>"

definition ledger_1k :: RiskManager where
  "ledger_1k = RiskManager_init 1000 0.02 0.10 0.15 5 1.5"

definition ledger_10k :: RiskManager where
  "ledger_10k = RiskManager_init 10000 0.02 0.10 0.15 5 1.5"

definition noice_ledger :: RiskManager where
  "noice_ledger = snd (open_position 0 ledger_1k noice_signal 10)"

definition noice_engine :: "nat TradingEngine" where
  "noice_engine = TradingEngine_init 0 noice_ledger"

definition after_tp1 :: "nat TradingEngine" where
  "after_tp1 = update_positions 1 noice_engine 1.10"

definition after_stop :: "nat TradingEngine" where
  "after_stop = update_positions 2 after_tp1 0.99"

definition after_tp2 :: "nat TradingEngine" where
  "after_tp2 = update_positions 2 after_tp1 1.20"

text \<open>A strategy that counts its calls and emits the scenario's signal at every candle.\<close>

definition counting_strategy :: "nat strategy_update" where
  "counting_strategy n ohlcv = (Inr (Some noice_signal), Suc n)"

definition noice_candle :: OHLCVData where
  "noice_candle =
     \<lparr>OHLCVData.timestamp = 1, open = 1.0, high = 1.06, low = 1.0, close = 1.05,
      volume = 5000, OHLCVData.symbol = ''NOICEUSDT''\<rparr>"

definition noice_ticker :: TickerData where
  "noice_ticker =
     \<lparr>TickerData.symbol = ''NOICEUSDT'', TickerData.price = 1.05, bid = 1.04, ask = 1.06,
      volume_24h = 90000, change_24h = 0.05, TickerData.timestamp = 1\<rparr>"

text \<open>The sizing scenario of the specification: entry 100, stop 98.\<close>

definition sizing_signal :: TradingSignal where
  "sizing_signal =
     noice_signal\<lparr>TradingSignal.price := 100, TradingSignal.stop_loss := 98,
                   TradingSignal.take_profit_1 := 104, TradingSignal.take_profit_2 := 108\<rparr>"

text \<open>
  A SHORT of 2 units at 100 (the size the ledger computes for a stop at 110) that is
  stopped out at 700: the loss of 1200 exceeds the capital of 1000.
\<close>

definition short_signal :: TradingSignal where
  "short_signal =
     noice_signal\<lparr>signal_type := SELL, TradingSignal.price := 100,
                   TradingSignal.stop_loss := 110, TradingSignal.take_profit_1 := 80,
                   TradingSignal.take_profit_2 := 60\<rparr>"

definition ledger_after_loss :: RiskManager where
  "ledger_after_loss =
     rm_run ledger_1k
       [OpOpen 0 short_signal 2, OpUpdate 1 ''NOICEUSDT'' 700,
        OpClose ''NOICEUSDT'' ''stop_loss'' 1]"

text \<open>A ledger whose portfolio ceiling is 3 percent, and two signals on two symbols.\<close>

definition ledger_3pct :: RiskManager where
  "ledger_3pct = RiskManager_init 10000 0.02 0.03 0.15 5 1.5"

definition signal_a :: TradingSignal where
  "signal_a = sizing_signal\<lparr>TradingSignal.symbol := ''AAA''\<rparr>"

definition signal_b :: TradingSignal where
  "signal_b = sizing_signal\<lparr>TradingSignal.symbol := ''BBB''\<rparr>"

text \<open>A signal at 3 with its stop at 2.95: the 95 percent cap, 9500 / 3, binds.\<close>

definition thirds_signal :: TradingSignal where
  "thirds_signal =
     noice_signal\<lparr>TradingSignal.price := 3, TradingSignal.stop_loss := 2.95,
                   TradingSignal.take_profit_1 := 3.1, TradingSignal.take_profit_2 := 3.2\<rparr>"

text \<open>The scenario's position with a quantity of one thousandth of a unit.\<close>

definition tiny_engine :: "nat TradingEngine" where
  "tiny_engine = TradingEngine_init 0 (snd (open_position 0 ledger_1k noice_signal 0.001))"

text \<open>
  A LONG whose stop (1.2) lies above its first target (1.1): a price of 1.15 is at or
  below the stop and at or above the target.
\<close>

definition crossed_signal :: TradingSignal where
  "crossed_signal = noice_signal\<lparr>TradingSignal.stop_loss := 1.2\<rparr>"

definition crossed_position :: Position where
  "crossed_position = fst (open_position 0 ledger_1k crossed_signal 10)"

definition crossed_ledger :: RiskManager where
  "crossed_ledger = snd (open_position 0 ledger_1k crossed_signal 10)"

text \<open>
  The scenario's engine at the moment the price update to 1.10 has been applied and the
  first target is about to be handled; and the engine with the tiny position after a tick
  at 1.10.
\<close>

definition at_tp1 :: "nat TradingEngine" where
  "at_tp1 =
     noice_engine\<lparr>risk_manager := snd (update_position 1 noice_ledger ''NOICEUSDT'' 1.10)\<rparr>"

definition tiny_after_tp1 :: "nat TradingEngine" where
  "tiny_after_tp1 = update_positions 1 tiny_engine 1.10"

text \<open>The \<open>action\<close> entry of a lifecycle event.\<close>

fun event_action :: "trade_event \<Rightarrow> string" where
  "event_action (OpenPositionEvent signal position now) = ''open_position''"
| "event_action (ExitEvent exit_action symb position now) = exit_action"

text \<open>The position objects held by the ledgers of \<open>at_tp1\<close> and \<open>after_tp1\<close>.\<close>

definition at_tp1_position :: Position where
  "at_tp1_position = update_price 1 (fst (open_position 0 ledger_1k noice_signal 10)) 1.10"

definition half_closed_position :: Position where
  "half_closed_position =
     at_tp1_position\<lparr>realized_pnl := 1 / 2, remaining_quantity := 5, tp1_hit := True,
                      status := PARTIAL, Position.stop_loss := 1\<rparr>"

text \<open>The scenario's engine after \<open>disable_trading\<close>.\<close>

definition paused_engine :: "nat TradingEngine" where
  "paused_engine = disable_trading noice_engine"

text \<open>
  Two admitted opens on the 3 percent ledger, each through the gate, the sizing (95 units)
  and \<open>open_position\<close>.
\<close>

definition ledger_a :: RiskManager where
  "ledger_a = snd (open_position 0 (snd (can_open_position ledger_3pct signal_a)) signal_a 95)"

definition ledger_ab :: RiskManager where
  "ledger_ab = snd (open_position 1 (snd (can_open_position ledger_a signal_b)) signal_b 95)"

text \<open>An engine on the 10000 ledger that processes the signal at 3.\<close>

definition thirds_engine :: "nat TradingEngine" where
  "thirds_engine = TradingEngine_init 0 ledger_10k"

definition thirds_opened :: "nat TradingEngine" where
  "thirds_opened = process_signal 1 thirds_engine thirds_signal"

definition thirds_position :: Position where
  "thirds_position = fst (open_position 1 ledger_10k thirds_signal 3166.66666667)"

text \<open>A signal whose stop equals its price, and a signal whose price is zero.\<close>

definition flat_signal :: TradingSignal where
  "flat_signal = noice_signal\<lparr>TradingSignal.stop_loss := 1\<rparr>"

definition zero_price_signal :: TradingSignal where
  "zero_price_signal = noice_signal\<lparr>TradingSignal.price := 0\<rparr>"

section \<open>Evaluating the concrete runs\<close>

lemmas ledger_defs =
  close_position_def update_position_def update_price_def should_stop_loss_def
  should_take_profit_1_def should_take_profit_2_def close_pnl_def open_position_def
  new_Position_def Position_post_init_def RiskManager_init_def Let_def

lemmas engine_defs =
  update_positions_def handle_position_exit_def logger_def notify_trade_callbacks_def
  TradingEngine_init_def get_total_pnl_def

lemma noice_ledger_eval:
  "noice_ledger =
     \<lparr>initial_capital = 1000, current_capital = 1000,
      max_risk_per_trade = 1 / 50, max_portfolio_risk = 1 / 10,
      max_drawdown = 3 / 20, max_positions = 5, min_risk_reward = 3 / 2,
      positions =
        [(''NOICEUSDT'',
          \<lparr>Position.symbol = ''NOICEUSDT'', side = ''LONG'', entry_price = 1,
           Position.quantity = 10, Position.stop_loss = 19 / 20,
           Position.take_profit_1 = 11 / 10, Position.take_profit_2 = 6 / 5,
           current_price = 1, status = OPEN, tp1_hit = False, tp2_hit = False,
           remaining_quantity = 10, opened_at = 0, updated_at = 0, unrealized_pnl = 0,
           realized_pnl = 0, strategy = [], signal_confidence = 4 / 5\<rparr>)],
      position_history = [], total_trades = 1, winning_trades = 0,
      total_fees = 0, max_historical_capital = 1000\<rparr>"
  by (simp add: noice_ledger_def ledger_1k_def noice_signal_def ledger_defs)

lemma after_tp1_ledger:
  "risk_manager after_tp1 =
     \<lparr>initial_capital = 1000, current_capital = 2001 / 2,
      max_risk_per_trade = 1 / 50, max_portfolio_risk = 1 / 10,
      max_drawdown = 3 / 20, max_positions = 5, min_risk_reward = 3 / 2,
      positions =
        [(''NOICEUSDT'',
          \<lparr>Position.symbol = ''NOICEUSDT'', side = ''LONG'', entry_price = 1,
           Position.quantity = 10, Position.stop_loss = 1,
           Position.take_profit_1 = 11 / 10, Position.take_profit_2 = 6 / 5,
           current_price = 11 / 10, status = PARTIAL, tp1_hit = True, tp2_hit = False,
           remaining_quantity = 5, opened_at = 0, updated_at = Suc 0, unrealized_pnl = 1,
           realized_pnl = 1 / 2, strategy = [], signal_confidence = 4 / 5\<rparr>)],
      position_history = [], total_trades = 1, winning_trades = 1,
      total_fees = 0, max_historical_capital = 1000\<rparr>"
  by (simp add: after_tp1_def noice_engine_def noice_ledger_eval ledger_defs engine_defs)

lemma at_tp1_position_eval:
  "at_tp1_position =
     \<lparr>Position.symbol = ''NOICEUSDT'', side = ''LONG'', entry_price = 1,
      Position.quantity = 10, Position.stop_loss = 19 / 20,
      Position.take_profit_1 = 11 / 10, Position.take_profit_2 = 6 / 5,
      current_price = 11 / 10, status = OPEN, tp1_hit = False, tp2_hit = False,
      remaining_quantity = 10, opened_at = 0, updated_at = Suc 0, unrealized_pnl = 1,
      realized_pnl = 0, strategy = [], signal_confidence = 4 / 5\<rparr>"
  by (simp add: at_tp1_position_def ledger_1k_def noice_signal_def ledger_defs)

lemma at_tp1_holds_position:
  "map_of (positions (risk_manager at_tp1)) ''NOICEUSDT'' = Some at_tp1_position"
  by (simp add: at_tp1_def at_tp1_position_eval noice_engine_def noice_ledger_eval
      ledger_defs engine_defs)

lemma after_tp1_holds_position:
  "map_of (positions (risk_manager after_tp1)) ''NOICEUSDT'' = Some half_closed_position"
  by (simp add: after_tp1_ledger half_closed_position_def at_tp1_position_eval)

section \<open>Unknown symbols\<close>

text \<open>
  C9. \<open>close_position\<close> and \<open>update_position\<close> called with a symbol that has no open
  position return \<open>None\<close> and leave the whole risk-manager state as it was: capital,
  counters, open positions and history.
\<close>

theorem unknown_symbol_is_noop:
  "map_of (positions rm) symb = None \<Longrightarrow>
     close_position rm symb why partial_close = (None, rm) \<and>
     update_position now rm symb price_now = (None, rm)"
  by (simp add: close_position_def update_position_def)

theorem unknown_symbol_is_noop_witness:
  "map_of (positions noice_ledger) ''BTCUSDT'' = None \<and>
   close_position noice_ledger ''BTCUSDT'' ''manual_close'' 1 = (None, noice_ledger) \<and>
   update_position 1 noice_ledger ''BTCUSDT'' 1.05 = (None, noice_ledger)"
proof -
  have absent: "map_of (positions noice_ledger) ''BTCUSDT'' = None"
    by (simp add: noice_ledger_eval)
  from unknown_symbol_is_noop [OF absent, of "''manual_close''" 1 1 "1.05"] absent
  show ?thesis by simp
qed

section \<open>Order of the exit checks\<close>

text \<open>
  C2. A price update of an open position checks the stop-loss first, then the first
  target (only while \<open>tp1_hit\<close> is false), then the second target (only when \<open>tp1_hit\<close>
  is true and \<open>tp2_hit\<close> is false). When the new price triggers the stop-loss and a
  target at once, the exit action is \<open>stop_loss\<close>.
\<close>

theorem stop_loss_checked_first:
  assumes "map_of (positions rm) symb = Some p"
  shows "fst (update_position now rm symb x) =
           (if should_stop_loss (p\<lparr>current_price := x\<rparr>) then Some ''stop_loss''
            else if \<not> tp1_hit p \<and> should_take_profit_1 (p\<lparr>current_price := x\<rparr>)
                 then Some ''take_profit_1''
            else if tp1_hit p \<and> \<not> tp2_hit p \<and> should_take_profit_2 (p\<lparr>current_price := x\<rparr>)
                 then Some ''take_profit_2''
            else None)
         \<and> (should_stop_loss (p\<lparr>current_price := x\<rparr>) \<and>
              (should_take_profit_1 (p\<lparr>current_price := x\<rparr>) \<or>
               should_take_profit_2 (p\<lparr>current_price := x\<rparr>))
             \<longrightarrow> fst (update_position now rm symb x) = Some ''stop_loss'')"
  using assms
  by (simp add: update_position_def update_price_def should_stop_loss_def
      should_take_profit_1_def should_take_profit_2_def Let_def)

theorem stop_loss_checked_first_witness:
  "map_of (positions crossed_ledger) ''NOICEUSDT'' = Some crossed_position \<and>
   should_stop_loss (crossed_position\<lparr>current_price := 1.15\<rparr>) \<and>
   should_take_profit_1 (crossed_position\<lparr>current_price := 1.15\<rparr>) \<and>
   fst (update_position 1 crossed_ledger ''NOICEUSDT'' 1.15) = Some ''stop_loss''"
proof -
  have p: "map_of (positions crossed_ledger) ''NOICEUSDT'' = Some crossed_position"
    by (simp add: crossed_ledger_def crossed_position_def crossed_signal_def ledger_1k_def
        noice_signal_def ledger_defs)
  have stop: "should_stop_loss (crossed_position\<lparr>current_price := 1.15\<rparr>)"
    and tp1: "should_take_profit_1 (crossed_position\<lparr>current_price := 1.15\<rparr>)"
    by (simp_all add: crossed_position_def crossed_signal_def ledger_1k_def
        noice_signal_def ledger_defs)
  from stop_loss_checked_first [OF p, of 1 "1.15"] stop tp1 p
  show ?thesis by simp
qed

section \<open>Capital moves only by realized P&L\<close>

lemma open_position_capital:
  "current_capital (snd (open_position now rm signal qty)) = current_capital rm"
  by (simp add: open_position_def Let_def)

lemma update_position_capital:
  "current_capital (snd (update_position now rm symb x)) = current_capital rm"
  by (simp add: update_position_def Let_def split: option.splits)

lemma get_current_drawdown_capital:
  "current_capital (snd (get_current_drawdown rm)) = current_capital rm"
  by (simp add: get_current_drawdown_def Let_def)

lemma can_open_position_capital:
  "current_capital (snd (can_open_position rm signal)) = current_capital rm"
  using get_current_drawdown_capital [of rm]
  by (auto simp: can_open_position_def split: prod.splits sum.splits)

lemma get_portfolio_summary_capital:
  "current_capital (snd (get_portfolio_summary rm)) = current_capital rm"
  using get_current_drawdown_capital [of rm]
  by (auto simp: get_portfolio_summary_def Let_def split: prod.splits sum.splits)

lemma close_position_present:
  assumes "map_of (positions rm) symb = Some p"
  shows "current_capital (snd (close_position rm symb why f)) =
           current_capital rm + close_pnl p f"
    and "\<exists>p'. fst (close_position rm symb why f) = Some p' \<and>
              realized_pnl p' = realized_pnl p + close_pnl p f"
  using assms by (simp_all add: close_position_def Let_def)

lemma close_position_absent:
  "map_of (positions rm) symb = None \<Longrightarrow> close_position rm symb why f = (None, rm)"
  by (simp add: close_position_def)

lemma rm_step_capital:
  "current_capital (rm_step rm op) = current_capital rm + realized_delta rm op"
proof (cases op)
  case (OpClose symb why f)
  show ?thesis
  proof (cases "map_of (positions rm) symb")
    case None
    with OpClose show ?thesis by (simp add: close_position_absent)
  next
    case (Some p)
    from close_position_present [OF Some, of why f] OpClose Some
    show ?thesis by auto
  qed
qed (simp_all add: open_position_capital update_position_capital can_open_position_capital
      get_current_drawdown_capital get_portfolio_summary_capital)

lemma rm_run_capital:
  "current_capital (rm_run rm ops) = current_capital rm + sum_list (realized_deltas rm ops)"
  by (induction ops arbitrary: rm) (simp_all add: rm_step_capital)

lemma not_close_delta: "\<not> is_close op \<Longrightarrow> realized_delta rm op = 0"
  by (cases op) simp_all

text \<open>
  C8. Over every sequence of risk-manager calls (open, update, close and the queries) the
  current capital moves only at a close that realizes P&L, and there by exactly the
  realized P&L delta of that close: the capital after the run is the capital before it
  plus the sum of the realized deltas, a call that is not a close leaves the capital as it
  is, and so does every price update, which changes unrealized P&L only.
\<close>

theorem capital_moves_only_by_realized_pnl:
  "current_capital (rm_run rm ops) = current_capital rm + sum_list (realized_deltas rm ops) \<and>
   (\<not> is_close op \<longrightarrow> current_capital (rm_step rm op) = current_capital rm) \<and>
   current_capital (snd (update_position now rm symb x)) = current_capital rm"
  by (simp add: rm_run_capital rm_step_capital not_close_delta update_position_capital)

theorem capital_moves_only_by_realized_pnl_witness:
  "\<not> is_close (OpUpdate 1 ''NOICEUSDT'' 700) \<and>
   current_capital (rm_step noice_ledger (OpUpdate 1 ''NOICEUSDT'' 700)) =
     current_capital noice_ledger \<and>
   realized_deltas ledger_1k
     [OpOpen 0 short_signal 2, OpUpdate 1 ''NOICEUSDT'' 700,
      OpClose ''NOICEUSDT'' ''stop_loss'' 1] = [0, 0, - 1200] \<and>
   current_capital ledger_1k = 1000 \<and>
   current_capital ledger_after_loss = - 200"
proof -
  have deltas: "realized_deltas ledger_1k
     [OpOpen 0 short_signal 2, OpUpdate 1 ''NOICEUSDT'' 700,
      OpClose ''NOICEUSDT'' ''stop_loss'' 1] = [0, 0, - 1200]"
    by (simp add: short_signal_def ledger_1k_def noice_signal_def ledger_defs)
  have start: "current_capital ledger_1k = 1000"
    by (simp add: ledger_1k_def RiskManager_init_def)
  have no_close: "\<not> is_close (OpUpdate 1 ''NOICEUSDT'' 700)"
    by simp
  from capital_moves_only_by_realized_pnl
         [where rm = ledger_1k and op = "OpUpdate 1 ''NOICEUSDT'' 700"
            and ops = "[OpOpen 0 short_signal 2, OpUpdate 1 ''NOICEUSDT'' 700,
                        OpClose ''NOICEUSDT'' ''stop_loss'' 1]"]
       capital_moves_only_by_realized_pnl
         [where rm = noice_ledger and op = "OpUpdate 1 ''NOICEUSDT'' 700" and ops = "[]"]
       deltas start no_close
  show ?thesis by (simp add: ledger_after_loss_def)
qed

section \<open>Trade counters\<close>

lemma close_position_counters:
  assumes "map_of (positions rm) symb = Some p"
  shows "winning_trades (snd (close_position rm symb why f)) =
           winning_trades rm + (if close_pnl p f > 0 then 1 else 0)"
    and "total_trades (snd (close_position rm symb why f)) = total_trades rm"
  using assms by (simp_all add: close_position_def Let_def)

lemma open_position_counters:
  "total_trades (snd (open_position now rm signal qty)) = total_trades rm + 1"
  "winning_trades (snd (open_position now rm signal qty)) = winning_trades rm"
  by (simp_all add: open_position_def Let_def)

lemma after_tp2_counters:
  "total_trades (risk_manager after_tp2) = 1"
  "winning_trades (risk_manager after_tp2) = 2"
  "positions (risk_manager after_tp2) = []"
  "max_historical_capital (risk_manager after_tp2) = 1000"
  "current_capital (risk_manager after_tp2) = 2003 / 2"
  by (simp_all add: after_tp2_def update_positions_def after_tp1_ledger ledger_defs
      engine_defs)

lemma py_round_200: "py_round 200 2 = 200"
  by (simp add: py_round_def round_half_even_def Let_def)

lemma after_tp2_win_rate:
  "map_sum id s_win_rate (fst (get_portfolio_summary (risk_manager after_tp2))) = Inr 200"
  by (simp add: get_portfolio_summary_def get_current_drawdown_def win_rate_of_def
      after_tp2_counters Let_def py_round_200)

text \<open>
  C10. Every \<open>close_position\<close> call on an open position whose realized P&L delta is
  positive raises \<open>winning_trades\<close> by one, partial closes included, and leaves
  \<open>total_trades\<close> alone; \<open>open_position\<close> raises \<open>total_trades\<close> by one and leaves
  \<open>winning_trades\<close> alone. So the single position of the scenario, closed with a profit
  at the first target (half) and at the second target (rest), counts 2 winning trades
  against 1 trade, and \<open>get_portfolio_summary\<close> reports a win rate of 200 percent.
\<close>

theorem winning_trades_count_tranches:
  "(map_of (positions rm) symb = Some p \<longrightarrow>
      winning_trades (snd (close_position rm symb why f)) =
        winning_trades rm + (if close_pnl p f > 0 then 1 else 0) \<and>
      total_trades (snd (close_position rm symb why f)) = total_trades rm) \<and>
   total_trades (snd (open_position now rm signal qty)) = total_trades rm + 1 \<and>
   winning_trades (snd (open_position now rm signal qty)) = winning_trades rm \<and>
   total_trades (risk_manager after_tp2) = 1 \<and>
   winning_trades (risk_manager after_tp2) = 2 \<and>
   map_sum id s_win_rate (fst (get_portfolio_summary (risk_manager after_tp2))) = Inr 200"
  by (simp add: close_position_counters open_position_counters after_tp2_counters
      after_tp2_win_rate)

theorem winning_trades_count_tranches_witness:
  "map_of (positions (risk_manager after_tp1)) ''NOICEUSDT'' = Some half_closed_position \<and>
   close_pnl half_closed_position 1 > 0 \<and>
   winning_trades (risk_manager after_tp1) = 1 \<and>
   winning_trades (snd (close_position (risk_manager after_tp1) ''NOICEUSDT''
                          ''take_profit_2'' 1)) = 2 \<and>
   total_trades (snd (close_position (risk_manager after_tp1) ''NOICEUSDT''
                        ''take_profit_2'' 1)) = 1"
proof -
  have pnl: "close_pnl half_closed_position 1 > 0"
    by (simp add: half_closed_position_def at_tp1_position_eval close_pnl_def)
  have counters: "winning_trades (risk_manager after_tp1) = 1"
    "total_trades (risk_manager after_tp1) = 1"
    by (simp_all add: after_tp1_ledger)
  from winning_trades_count_tranches
         [where rm = "risk_manager after_tp1" and symb = "''NOICEUSDT''"
            and p = half_closed_position and why = "''take_profit_2''" and f = 1]
       after_tp1_holds_position pnl counters
  show ?thesis by simp
qed

section \<open>Handling the first target\<close>

lemma handle_tp1_ledger:
  "risk_manager (handle_position_exit now e symb ''take_profit_1'') =
     snd (close_position (risk_manager e) symb ''take_profit_1'' (1 / 2))"
  by (simp add: handle_position_exit_def logger_def notify_trade_callbacks_def Let_def
      split: prod.splits option.splits)

text \<open>
  C7, amended. Handling a first-target trigger of an open position (the engine calls
  \<open>close_position\<close> with reason \<open>take_profit_1\<close> and fraction 0.5) adds the realized
  P&L of the closed half to the current capital, leaves half of the remaining quantity,
  moves the stop-loss to the entry price and sets \<open>tp1_hit\<close>. The position stays open
  with status PARTIAL when the half that remains exceeds 0.001; otherwise it is CLOSED,
  appended to the history and removed from the open positions.
\<close>

theorem tp1_closes_half:
  assumes "map_of (positions (risk_manager e)) symb = Some p"
  shows "current_capital (risk_manager (handle_position_exit now e symb ''take_profit_1'')) =
           current_capital (risk_manager e) + close_pnl p (1 / 2) \<and>
         (if remaining_quantity p / 2 > 0.001
          then map_of (positions (risk_manager
                         (handle_position_exit now e symb ''take_profit_1''))) symb =
                 Some (p\<lparr>realized_pnl := realized_pnl p + close_pnl p (1 / 2),
                          remaining_quantity := remaining_quantity p / 2,
                          tp1_hit := True, status := PARTIAL,
                          Position.stop_loss := entry_price p\<rparr>) \<and>
               position_history (risk_manager
                                   (handle_position_exit now e symb ''take_profit_1'')) =
                 position_history (risk_manager e)
          else map_of (positions (risk_manager
                         (handle_position_exit now e symb ''take_profit_1''))) symb = None \<and>
               position_history (risk_manager
                                   (handle_position_exit now e symb ''take_profit_1'')) =
                 position_history (risk_manager e) @
                 [p\<lparr>realized_pnl := realized_pnl p + close_pnl p (1 / 2),
                     remaining_quantity := remaining_quantity p / 2,
                     tp1_hit := True, status := CLOSED,
                     Position.stop_loss := entry_price p\<rparr>])"
  using assms
  by (simp add: handle_tp1_ledger close_position_def Let_def update_conv' delete_conv')

theorem tp1_closes_half_witness:
  "map_of (positions (risk_manager at_tp1)) ''NOICEUSDT'' = Some at_tp1_position \<and>
   remaining_quantity at_tp1_position / 2 > 0.001 \<and>
   current_capital (risk_manager at_tp1) = 1000 \<and>
   current_capital (risk_manager (handle_position_exit 1 at_tp1 ''NOICEUSDT'' ''take_profit_1''))
     = 1000.5 \<and>
   map_of (positions (risk_manager
             (handle_position_exit 1 at_tp1 ''NOICEUSDT'' ''take_profit_1''))) ''NOICEUSDT'' =
     Some half_closed_position"
proof -
  have big: "remaining_quantity at_tp1_position / 2 > 0.001"
    by (simp add: at_tp1_position_eval)
  have pnl: "close_pnl at_tp1_position (1 / 2) = 1 / 2"
    by (simp add: at_tp1_position_eval close_pnl_def)
  have cap: "current_capital (risk_manager at_tp1) = 1000"
    by (simp add: at_tp1_def noice_ledger_eval update_position_def Let_def)
  have half: "at_tp1_position\<lparr>realized_pnl := realized_pnl at_tp1_position + 1 / 2,
                remaining_quantity := remaining_quantity at_tp1_position / 2,
                tp1_hit := True, status := PARTIAL,
                Position.stop_loss := entry_price at_tp1_position\<rparr> = half_closed_position"
    by (simp add: half_closed_position_def at_tp1_position_eval)
  from tp1_closes_half [OF at_tp1_holds_position, of 1] big at_tp1_holds_position
  show ?thesis by (simp add: pnl cap half)
qed

text \<open>
  C7 as stated fails: the scenario's position with a quantity of 0.001 is OPEN, the tick
  at 1.10 is handled as a first-target trigger, and afterwards the position is not
  PARTIAL: the half that remains, 0.0005, is at most 0.001, so the position is CLOSED and
  has moved from the open positions to the history.
\<close>

theorem tp1_on_tiny_position_closes_it:
  "map status (map snd (positions (risk_manager tiny_engine))) = [OPEN] \<and>
   map event_action (events tiny_after_tp1) = [''take_profit_1''] \<and>
   positions (risk_manager tiny_after_tp1) = [] \<and>
   map status (position_history (risk_manager tiny_after_tp1)) = [CLOSED]"
  by (simp add: tiny_after_tp1_def tiny_engine_def ledger_1k_def noice_signal_def
      ledger_defs engine_defs)

section \<open>The scenario: first target, then the breakeven stop\<close>

lemma after_stop_eval:
  "map event_action (events after_tp1) = [''take_profit_1'']"
  "map event_action (events after_stop) = [''take_profit_1'', ''stop_loss'']"
  "positions (risk_manager after_stop) = []"
  "position_history (risk_manager after_stop) =
     [half_closed_position\<lparr>current_price := 0.99, updated_at := 2, unrealized_pnl := - 0.05,
        realized_pnl := 0.45, remaining_quantity := 0, status := CLOSED\<rparr>]"
  "current_capital (risk_manager after_stop) = 1000.45"
  by (simp_all add: after_stop_def after_tp1_def noice_engine_def noice_ledger_eval
      half_closed_position_def at_tp1_position_eval ledger_defs engine_defs)

text \<open>
  C1 as stated fails: the tick at 0.99 triggers the breakeven stop, but the remaining
  5 units are closed at the current price 0.99, not at the stop price 1.0, and the second
  tranche realizes \<open>- 0.05\<close>, not zero.
\<close>

theorem breakeven_stop_closes_at_current_price:
  "map event_action (events after_stop) = [''take_profit_1'', ''stop_loss''] \<and>
   map current_price (position_history (risk_manager after_stop)) = [0.99] \<and>
   current_capital (risk_manager after_stop) - current_capital (risk_manager after_tp1)
     = - 0.05 \<and>
   current_capital (risk_manager after_stop) - current_capital (risk_manager after_tp1) \<noteq> 0"
  by (simp add: after_stop_eval after_tp1_ledger)

text \<open>
  C1, amended. For the LONG position opened at 1.0 with stop 0.95, targets 1.10 and 1.20
  and quantity 10, the price update to 1.10 fires the first target: 5 units are closed,
  0.5 is realized into the capital, the stop-loss moves to 1.0 and the status becomes
  PARTIAL. The next price update to 0.99 triggers the stop, now at breakeven, and closes
  the remaining 5 units at the current price 0.99: the position is CLOSED and moved to the
  history, and the second tranche realizes \<open>- 0.05\<close>.
\<close>

theorem scenario_tp1_then_breakeven_stop:
  "fst (update_position 1 noice_ledger ''NOICEUSDT'' 1.10) = Some ''take_profit_1'' \<and>
   map event_action (events after_tp1) = [''take_profit_1''] \<and>
   current_capital (risk_manager after_tp1) = current_capital noice_ledger + 0.5 \<and>
   map remaining_quantity (map snd (positions (risk_manager after_tp1))) = [5] \<and>
   map Position.stop_loss (map snd (positions (risk_manager after_tp1))) = [1] \<and>
   map status (map snd (positions (risk_manager after_tp1))) = [PARTIAL] \<and>
   fst (update_position 2 (risk_manager after_tp1) ''NOICEUSDT'' 0.99) = Some ''stop_loss'' \<and>
   map event_action (events after_stop) = [''take_profit_1'', ''stop_loss''] \<and>
   positions (risk_manager after_stop) = [] \<and>
   map status (position_history (risk_manager after_stop)) = [CLOSED] \<and>
   map remaining_quantity (position_history (risk_manager after_stop)) = [0] \<and>
   map current_price (position_history (risk_manager after_stop)) = [0.99] \<and>
   current_capital (risk_manager after_stop) =
     current_capital (risk_manager after_tp1) - 0.05"
  by (simp add: after_stop_def after_tp1_def noice_engine_def noice_ledger_eval
      ledger_defs engine_defs)

section \<open>Trading disabled\<close>

lemma disabled_candle_handler:
  "\<not> is_trading_enabled e \<Longrightarrow> on_market_data upd now e ohlcv = e"
  by (simp add: on_market_data_def)

lemma paused_engine_eval:
  "paused_engine = noice_engine\<lparr>is_trading_enabled := False, log := [TradingDisabled]\<rparr>"
  by (simp add: paused_engine_def disable_trading_def logger_def noice_engine_def
      TradingEngine_init_def)

text \<open>
  C3. While trading is disabled (the state the engine itself calls monitoring only), the
  claim has every candle still reach the strategy, its signal generated and logged, and
  the open positions still price-updated, with no signal reaching the risk manager. The
  candle handler does not do this: by \<open>disabled_candle_handler\<close> it returns the engine
  unchanged. On the scenario's engine after \<open>disable_trading\<close>, a candle closing at 1.05
  leaves the counting strategy at 0 calls, generates and logs no signal and leaves the
  open position priced at 1, where the same candle on the enabled engine gives 1 call,
  1 signal and the price 1.05. The ticker handler, which the flag does not gate, does
  update the position of the disabled engine to 1.05.
\<close>

theorem paused_engine_drops_candle:
  "is_trading_enabled paused_engine = False \<and>
   TradingEngine.strategy paused_engine = 0 \<and>
   TradingEngine.strategy (on_market_data counting_strategy 1 paused_engine noice_candle) = 0 \<and>
   signals_generated (on_market_data counting_strategy 1 paused_engine noice_candle) = 0 \<and>
   log (on_market_data counting_strategy 1 paused_engine noice_candle) = [TradingDisabled] \<and>
   map current_price (map snd (positions (risk_manager
     (on_market_data counting_strategy 1 paused_engine noice_candle)))) = [1] \<and>
   TradingEngine.strategy (on_market_data counting_strategy 1 noice_engine noice_candle) = 1 \<and>
   signals_generated (on_market_data counting_strategy 1 noice_engine noice_candle) = 1 \<and>
   map current_price (map snd (positions (risk_manager
     (on_market_data counting_strategy 1 noice_engine noice_candle)))) = [1.05] \<and>
   map current_price (map snd (positions (risk_manager
     (on_ticker_data 1 paused_engine noice_ticker)))) = [1.05]"
  by (simp add: paused_engine_eval on_market_data_def on_ticker_data_def
      counting_strategy_def noice_candle_def noice_ticker_def
      noice_engine_def noice_ledger_eval noice_signal_def process_signal_def
      can_open_position_def ledger_defs engine_defs)

section \<open>Rounding\<close>

lemma round_half_even_cases:
  "round_half_even x = \<lfloor>x\<rfloor> \<and> x - of_int \<lfloor>x\<rfloor> \<le> 1 / 2 \<or>
   round_half_even x = \<lfloor>x\<rfloor> + 1 \<and> 1 / 2 \<le> x - of_int \<lfloor>x\<rfloor>"
  by (simp add: round_half_even_def Let_def)

lemma round_half_even_upper: "of_int (round_half_even x) \<le> x + 1 / 2"
proof -
  have le: "real_of_int \<lfloor>x\<rfloor> \<le> x" by (rule of_int_floor_le)
  from round_half_even_cases [of x] show ?thesis
  proof
    assume "round_half_even x = \<lfloor>x\<rfloor> \<and> x - of_int \<lfloor>x\<rfloor> \<le> 1 / 2"
    then have "real_of_int (round_half_even x) = real_of_int \<lfloor>x\<rfloor>" by simp
    with le show ?thesis by linarith
  next
    assume "round_half_even x = \<lfloor>x\<rfloor> + 1 \<and> 1 / 2 \<le> x - of_int \<lfloor>x\<rfloor>"
    then show ?thesis by simp
  qed
qed

lemma round_half_even_nonneg: "0 \<le> x \<Longrightarrow> 0 \<le> round_half_even x"
proof -
  assume "0 \<le> x"
  then have "0 \<le> \<lfloor>x\<rfloor>" by simp
  with round_half_even_cases [of x] show ?thesis by linarith
qed

lemma round_half_even_nonpos: "x \<le> 0 \<Longrightarrow> round_half_even x \<le> 0"
proof -
  assume x: "x \<le> 0"
  have le: "real_of_int \<lfloor>x\<rfloor> \<le> x" by (rule of_int_floor_le)
  from round_half_even_cases [of x] show ?thesis
  proof
    assume "round_half_even x = \<lfloor>x\<rfloor> \<and> x - of_int \<lfloor>x\<rfloor> \<le> 1 / 2"
    with le x have "real_of_int (round_half_even x) \<le> 0" by simp
    then show ?thesis by simp
  next
    assume h: "round_half_even x = \<lfloor>x\<rfloor> + 1 \<and> 1 / 2 \<le> x - of_int \<lfloor>x\<rfloor>"
    with x have "real_of_int \<lfloor>x\<rfloor> < 0" by linarith
    then have "\<lfloor>x\<rfloor> < 0" by simp
    with h show ?thesis by simp
  qed
qed

lemma py_round_upper: "py_round x n \<le> x + 1 / 2 / 10 ^ n"
proof -
  have "of_int (round_half_even (x * 10 ^ n)) \<le> x * 10 ^ n + 1 / 2"
    by (rule round_half_even_upper)
  then have "of_int (round_half_even (x * 10 ^ n)) / 10 ^ n \<le> (x * 10 ^ n + 1 / 2) / 10 ^ n"
    by (simp add: divide_right_mono)
  then show ?thesis by (simp add: py_round_def add_divide_distrib)
qed

lemma py_round_nonneg: "0 \<le> x \<Longrightarrow> 0 \<le> py_round x n"
  by (simp add: py_round_def round_half_even_nonneg)

lemma py_round_nonpos: "x \<le> 0 \<Longrightarrow> py_round x n \<le> 0"
proof -
  assume "x \<le> 0"
  then have "x * 10 ^ n \<le> 0" by (simp add: mult_le_0_iff)
  then have "round_half_even (x * 10 ^ n) \<le> 0" by (rule round_half_even_nonpos)
  then show ?thesis by (simp add: py_round_def divide_le_0_iff)
qed

lemma round_half_even_mono:
  assumes "x \<le> y"
  shows "round_half_even x \<le> round_half_even y"
proof (cases "\<lfloor>x\<rfloor> = \<lfloor>y\<rfloor>")
  case True
  from assms have "x - of_int \<lfloor>y\<rfloor> \<le> y - of_int \<lfloor>y\<rfloor>" by simp
  then show ?thesis
    by (auto simp: round_half_even_def Let_def True)
next
  case False
  from assms have "\<lfloor>x\<rfloor> \<le> \<lfloor>y\<rfloor>" by (rule floor_mono)
  with False have "\<lfloor>x\<rfloor> + 1 \<le> \<lfloor>y\<rfloor>" by simp
  with round_half_even_cases [of x] round_half_even_cases [of y] show ?thesis
    by linarith
qed

lemma py_round_mono:
  assumes "x \<le> y"
  shows "py_round x n \<le> py_round y n"
proof -
  from assms have "x * 10 ^ n \<le> y * 10 ^ n" by simp
  then have "round_half_even (x * 10 ^ n) \<le> round_half_even (y * 10 ^ n)"
    by (rule round_half_even_mono)
  then show ?thesis by (simp add: py_round_def divide_right_mono)
qed

section \<open>Position sizing\<close>

lemma position_size_value:
  "calculate_position_size rm signal =
     (if TradingSignal.price signal = TradingSignal.stop_loss signal then Inr 0
      else if TradingSignal.price signal = 0 then Inl ZeroDivisionError
      else Inr (py_round
                 (min (current_capital rm * max_risk_per_trade rm
                        / \<bar>TradingSignal.price signal - TradingSignal.stop_loss signal\<bar>)
                      (0.95 * current_capital rm / TradingSignal.price signal)) 8))"
  by (simp add: calculate_position_size_def Let_def mult.commute)

lemma position_size_nonneg:
  assumes "0 \<le> current_capital rm" "0 \<le> max_risk_per_trade rm"
    "0 < TradingSignal.price signal" "calculate_position_size rm signal = Inr q"
  shows "0 \<le> q"
proof (cases "TradingSignal.price signal = TradingSignal.stop_loss signal")
  case True
  with assms(4) show ?thesis by (simp add: position_size_value)
next
  case False
  have "0 \<le> min (current_capital rm * max_risk_per_trade rm
                        / \<bar>TradingSignal.price signal - TradingSignal.stop_loss signal\<bar>)
                      (0.95 * current_capital rm / TradingSignal.price signal)"
    using assms(1-3) by simp
  from py_round_nonneg [OF this, of 8] False assms(3,4) show ?thesis
    by (simp add: position_size_value)
qed

lemma sizing_scenario: "calculate_position_size ledger_10k sizing_signal = Inr 95"
  by (simp add: position_size_value ledger_10k_def sizing_signal_def noice_signal_def
      RiskManager_init_def py_round_def round_half_even_def Let_def)

lemma ledger_after_loss_capital:
  "current_capital ledger_after_loss = - 200"
  "max_risk_per_trade ledger_after_loss = 0.02"
  by (simp_all add: ledger_after_loss_def short_signal_def ledger_1k_def noice_signal_def
      ledger_defs)

lemma thirds_size: "calculate_position_size ledger_10k thirds_signal = Inr 3166.66666667"
  by (simp add: position_size_value ledger_10k_def thirds_signal_def noice_signal_def
      RiskManager_init_def py_round_def round_half_even_def Let_def)

text \<open>
  C6 as stated fails: on the ledger whose capital has fallen to \<open>- 200\<close> (a SHORT of 2
  units at 100 stopped out at 700), the size computed for entry 100 and stop 98 is
  \<open>- 2\<close>, a negative quantity.
\<close>

theorem position_size_negative_after_loss:
  "current_capital ledger_after_loss = - 200 \<and>
   calculate_position_size ledger_after_loss sizing_signal = Inr (- 2)"
  by (simp add: position_size_value ledger_after_loss_capital sizing_signal_def
      noice_signal_def py_round_def round_half_even_def Let_def)

text \<open>
  C6, amended. For every signal whose price differs from its stop and is not zero,
  \<open>calculate_position_size\<close> returns
  \<open>min (capital * max_risk_per_trade / |price - stop|) (0.95 * capital / price)\<close>
  rounded to 8 decimals; it returns 0 when the price equals the stop and raises
  \<open>ZeroDivisionError\<close> when the price is zero and the stop is not. The result is not
  negative when the capital and \<open>max_risk_per_trade\<close> are not negative and the price is
  positive. With capital 10000, \<open>max_risk_per_trade\<close> 0.02, price 100 and stop 98 the
  quantity is 95.
\<close>

theorem position_size_formula:
  "(TradingSignal.price signal \<noteq> TradingSignal.stop_loss signal \<and>
    TradingSignal.price signal \<noteq> 0 \<longrightarrow>
      calculate_position_size rm signal =
        Inr (py_round
              (min (current_capital rm * max_risk_per_trade rm
                     / \<bar>TradingSignal.price signal - TradingSignal.stop_loss signal\<bar>)
                   (0.95 * current_capital rm / TradingSignal.price signal)) 8)) \<and>
   (TradingSignal.price signal = TradingSignal.stop_loss signal \<longrightarrow>
      calculate_position_size rm signal = Inr 0) \<and>
   (TradingSignal.price signal \<noteq> TradingSignal.stop_loss signal \<and>
    TradingSignal.price signal = 0 \<longrightarrow>
      calculate_position_size rm signal = Inl ZeroDivisionError) \<and>
   (0 \<le> current_capital rm \<and> 0 \<le> max_risk_per_trade rm \<and>
    0 < TradingSignal.price signal \<and> calculate_position_size rm signal = Inr q \<longrightarrow>
      0 \<le> q) \<and>
   calculate_position_size ledger_10k sizing_signal = Inr 95"
proof (intro conjI impI)
  assume "TradingSignal.price signal \<noteq> TradingSignal.stop_loss signal \<and>
          TradingSignal.price signal \<noteq> 0"
  then show "calculate_position_size rm signal =
        Inr (py_round
              (min (current_capital rm * max_risk_per_trade rm
                     / \<bar>TradingSignal.price signal - TradingSignal.stop_loss signal\<bar>)
                   (0.95 * current_capital rm / TradingSignal.price signal)) 8)"
    by (simp add: position_size_value)
next
  assume "TradingSignal.price signal = TradingSignal.stop_loss signal"
  then show "calculate_position_size rm signal = Inr 0"
    by (simp add: position_size_value)
next
  assume "TradingSignal.price signal \<noteq> TradingSignal.stop_loss signal \<and>
          TradingSignal.price signal = 0"
  then show "calculate_position_size rm signal = Inl ZeroDivisionError"
    by (simp add: position_size_value)
next
  assume "0 \<le> current_capital rm \<and> 0 \<le> max_risk_per_trade rm \<and>
          0 < TradingSignal.price signal \<and> calculate_position_size rm signal = Inr q"
  then show "0 \<le> q"
    using position_size_nonneg [of rm signal q] by blast
next
  show "calculate_position_size ledger_10k sizing_signal = Inr 95"
    by (rule sizing_scenario)
qed

theorem position_size_formula_witness:
  "TradingSignal.price thirds_signal \<noteq> TradingSignal.stop_loss thirds_signal \<and>
   TradingSignal.price thirds_signal \<noteq> 0 \<and>
   0 \<le> current_capital ledger_10k \<and> 0 \<le> max_risk_per_trade ledger_10k \<and>
   0 < TradingSignal.price thirds_signal \<and>
   calculate_position_size ledger_10k thirds_signal = Inr 3166.66666667 \<and>
   py_round (min (current_capital ledger_10k * max_risk_per_trade ledger_10k
                   / \<bar>TradingSignal.price thirds_signal
                       - TradingSignal.stop_loss thirds_signal\<bar>)
                 (0.95 * current_capital ledger_10k / TradingSignal.price thirds_signal)) 8
     = 3166.66666667 \<and>
   (0::real) \<le> 3166.66666667 \<and>
   TradingSignal.price flat_signal = TradingSignal.stop_loss flat_signal \<and>
   calculate_position_size ledger_10k flat_signal = Inr 0 \<and>
   TradingSignal.price zero_price_signal \<noteq> TradingSignal.stop_loss zero_price_signal \<and>
   TradingSignal.price zero_price_signal = 0 \<and>
   calculate_position_size ledger_10k zero_price_signal = Inl ZeroDivisionError"
proof -
  have thirds: "TradingSignal.price thirds_signal \<noteq> TradingSignal.stop_loss thirds_signal"
    "TradingSignal.price thirds_signal \<noteq> 0" "0 < TradingSignal.price thirds_signal"
    by (simp_all add: thirds_signal_def noice_signal_def)
  have ledger: "0 \<le> current_capital ledger_10k" "0 \<le> max_risk_per_trade ledger_10k"
    by (simp_all add: ledger_10k_def RiskManager_init_def)
  have flat: "TradingSignal.price flat_signal = TradingSignal.stop_loss flat_signal"
    by (simp add: flat_signal_def noice_signal_def)
  have zero: "TradingSignal.price zero_price_signal \<noteq> TradingSignal.stop_loss zero_price_signal"
    "TradingSignal.price zero_price_signal = 0"
    by (simp_all add: zero_price_signal_def noice_signal_def)
  from position_size_formula [of thirds_signal ledger_10k "3166.66666667"]
       position_size_formula [of flat_signal ledger_10k 0]
       position_size_formula [of zero_price_signal ledger_10k 0]
       thirds ledger flat zero thirds_size
  show ?thesis by simp
qed

section \<open>Admitted opens: the size\<close>

lemmas gate_defs =
  can_open_position_def get_portfolio_risk_def get_current_drawdown_def
  calculate_risk_reward_ratio_def calculate_position_size_def py_round_def
  round_half_even_def position_risk_def

lemma engine_close_position_events:
  "events (engine_close_position e symb why) = events e"
  by (simp add: engine_close_position_def logger_def Let_def split: prod.splits option.splits)

lemma execute_trade_events:
  "events (execute_trade now e signal qty) =
     events e @
     [OpenPositionEvent signal (fst (open_position now (risk_manager e) signal qty)) now]"
  by (simp add: execute_trade_def logger_def notify_trade_callbacks_def Let_def
      split: prod.splits)

lemma process_signal_opens:
  assumes "events (process_signal now e signal) \<noteq> events e"
  shows "\<exists>rm1 qty. can_open_position (risk_manager e) signal = (Inr True, rm1) \<and>
           calculate_position_size rm1 signal = Inr qty \<and> 0 < qty \<and>
           events (process_signal now e signal) =
             events e @
             [OpenPositionEvent signal (fst (open_position now rm1 signal qty)) now]"
  using assms
  by (auto simp: process_signal_def engine_close_position_events execute_trade_events
      logger_def Let_def split: prod.splits sum.splits if_splits)

lemma opened_position_fields:
  "Position.quantity (fst (open_position now rm signal qty)) = qty"
  "entry_price (fst (open_position now rm signal qty)) = TradingSignal.price signal"
  "Position.stop_loss (fst (open_position now rm signal qty)) = TradingSignal.stop_loss signal"
  "remaining_quantity (fst (open_position now rm signal qty)) = qty"
  by (simp_all add: open_position_def new_Position_def Position_post_init_def Let_def)

lemma positive_size:
  assumes "calculate_position_size rm signal = Inr qty" "0 < qty"
  shows "TradingSignal.price signal \<noteq> TradingSignal.stop_loss signal"
    and "TradingSignal.price signal \<noteq> 0"
    and "qty = py_round
                 (min (current_capital rm * max_risk_per_trade rm
                        / \<bar>TradingSignal.price signal - TradingSignal.stop_loss signal\<bar>)
                      (0.95 * current_capital rm / TradingSignal.price signal)) 8"
  using assms by (auto simp: position_size_value split: if_splits)

lemma thirds_opened_events:
  "events thirds_opened =
     events thirds_engine @ [OpenPositionEvent thirds_signal thirds_position 1]"
  by (simp add: thirds_opened_def thirds_engine_def thirds_position_def ledger_10k_def
      thirds_signal_def noice_signal_def process_signal_def execute_trade_def
      gate_defs ledger_defs engine_defs)

lemma thirds_position_fields:
  "Position.quantity thirds_position = 3166.66666667"
  "entry_price thirds_position = 3"
  by (simp_all add: thirds_position_def thirds_signal_def noice_signal_def ledger_defs)

text \<open>
  C5 as stated fails: on a capital of 10000 the signal at 3 with stop 2.95 is admitted
  and sized at 9500 / 3 rounded to 8 decimals, 3166.66666667, which is rounded up; the
  opened quantity times the entry price is 9500.00000001, above 0.95 * 10000.
\<close>

theorem rounded_size_exceeds_cap:
  "events thirds_opened =
     events thirds_engine @ [OpenPositionEvent thirds_signal thirds_position 1] \<and>
   current_capital (risk_manager thirds_engine) = 10000 \<and>
   Position.quantity thirds_position * entry_price thirds_position = 9500.00000001 \<and>
   \<not> Position.quantity thirds_position * entry_price thirds_position
       \<le> 0.95 * current_capital (risk_manager thirds_engine)"
  by (simp add: thirds_opened_events thirds_position_fields thirds_engine_def
      TradingEngine_init_def ledger_10k_def RiskManager_init_def)

text \<open>
  C5, amended. For every admitted open (a BUY or SELL signal that passes the admission
  gate and whose computed size passes the engine's positivity check, so that the engine
  opens the position and emits its event), the opened quantity is positive, the entry
  price is the signal's price, and the quantity is at most the capital-availability cap,
  0.95 times the capital at sizing divided by the entry price, rounded to 8 decimals. The
  cap bounds the size before the rounding; the rounded quantity times the entry price is
  not bounded by 0.95 times the capital.
\<close>

theorem admitted_open_size:
  assumes "events (process_signal now e signal) = events e @ [OpenPositionEvent sg p t]"
  shows "0 < Position.quantity p \<and> entry_price p = TradingSignal.price signal \<and>
         Position.quantity p
           \<le> py_round (0.95 * current_capital (risk_manager e) / entry_price p) 8"
proof -
  from assms have "events (process_signal now e signal) \<noteq> events e" by simp
  from process_signal_opens [OF this] assms obtain rm1 qty where
    admit: "can_open_position (risk_manager e) signal = (Inr True, rm1)" and
    size: "calculate_position_size rm1 signal = Inr qty" and pos: "0 < qty" and
    p: "p = fst (open_position now rm1 signal qty)"
    by auto
  from admit can_open_position_capital [of "risk_manager e" signal]
  have cap: "current_capital rm1 = current_capital (risk_manager e)" by simp
  have q: "Position.quantity p = qty" and en: "entry_price p = TradingSignal.price signal"
    by (simp_all add: p opened_position_fields)
  define a where "a = current_capital rm1 * max_risk_per_trade rm1
                        / \<bar>TradingSignal.price signal - TradingSignal.stop_loss signal\<bar>"
  define b where "b = 0.95 * current_capital rm1 / TradingSignal.price signal"
  have "qty = py_round (min a b) 8"
    unfolding a_def b_def by (rule positive_size(3) [OF size pos])
  moreover have "py_round (min a b) 8 \<le> py_round b 8"
    by (rule py_round_mono) simp
  ultimately have "qty \<le> py_round b 8" by simp
  then have "Position.quantity p
               \<le> py_round (0.95 * current_capital (risk_manager e) / entry_price p) 8"
    by (simp only: q en b_def cap)
  with pos q en show ?thesis by simp
qed

theorem admitted_open_size_witness:
  "events (process_signal 1 thirds_engine thirds_signal) =
     events thirds_engine @ [OpenPositionEvent thirds_signal thirds_position 1] \<and>
   0 < Position.quantity thirds_position \<and>
   entry_price thirds_position = TradingSignal.price thirds_signal \<and>
   Position.quantity thirds_position
     \<le> py_round (0.95 * current_capital (risk_manager thirds_engine)
                    / entry_price thirds_position) 8"
proof -
  have opened: "events (process_signal 1 thirds_engine thirds_signal) =
     events thirds_engine @ [OpenPositionEvent thirds_signal thirds_position 1]"
    using thirds_opened_events by (simp only: thirds_opened_def)
  from admitted_open_size [OF opened] opened
  show ?thesis by blast
qed

section \<open>Admitted opens: the portfolio risk\<close>

lemma update_fresh_key: "map_of al k = None \<Longrightarrow> AList.update k v al = al @ [(k, v)]"
  by (induction al) (auto split: if_splits)

lemma total_risk_loop_sum:
  "total_risk_loop acc ps = acc + sum_list (map position_risk ps)"
  by (induction ps arbitrary: acc) simp_all

lemma get_current_drawdown_frame:
  "positions (snd (get_current_drawdown rm)) = positions rm"
  "max_risk_per_trade (snd (get_current_drawdown rm)) = max_risk_per_trade rm"
  by (simp_all add: get_current_drawdown_def Let_def)

lemma can_open_position_admits:
  assumes "can_open_position rm signal = (Inr True, rm1)"
  shows "map_of (positions rm) (TradingSignal.symbol signal) = None"
    and "get_portfolio_risk rm < max_portfolio_risk rm"
    and "positions rm1 = positions rm"
    and "current_capital rm1 = current_capital rm"
    and "max_risk_per_trade rm1 = max_risk_per_trade rm"
  using assms get_current_drawdown_frame [of rm] get_current_drawdown_capital [of rm]
  by (auto simp: can_open_position_def split: if_splits prod.splits sum.splits)

lemma positive_size_capital:
  assumes "calculate_position_size rm signal = Inr qty" "0 < qty"
  shows "current_capital rm \<noteq> 0"
proof
  assume "current_capital rm = 0"
  then have "calculate_position_size rm signal = Inr 0 \<or>
             calculate_position_size rm signal = Inl ZeroDivisionError"
    by (simp add: position_size_value py_round_def round_half_even_def)
  with assms show False by auto
qed

lemma open_position_risk:
  assumes "map_of (positions rm) (TradingSignal.symbol signal) = None"
  shows "total_risk_loop 0 (map snd (positions (snd (open_position now rm signal qty)))) =
           total_risk_loop 0 (map snd (positions rm))
           + \<bar>TradingSignal.price signal - TradingSignal.stop_loss signal\<bar> * qty"
proof -
  have "positions (snd (open_position now rm signal qty)) =
          positions rm @ [(TradingSignal.symbol signal, fst (open_position now rm signal qty))]"
    using update_fresh_key [OF assms] by (simp add: open_position_def Let_def)
  then show ?thesis
    by (simp add: total_risk_loop_sum position_risk_def opened_position_fields)
qed

lemma ledger_a_eval:
  "can_open_position ledger_3pct signal_a = (Inr True, ledger_3pct)"
  "calculate_position_size ledger_3pct signal_a = Inr 95"
  by (simp_all add: ledger_3pct_def signal_a_def sizing_signal_def noice_signal_def
      gate_defs ledger_defs)

lemma ledger_ab_eval:
  "can_open_position ledger_a signal_b = (Inr True, ledger_a)"
  "calculate_position_size ledger_a signal_b = Inr 95"
  "get_portfolio_risk ledger_a = 0.019"
  "get_portfolio_risk ledger_ab = 0.038"
  "max_portfolio_risk ledger_ab = 0.03"
  "current_capital ledger_a = 10000"
  by (simp_all add: ledger_ab_def ledger_a_def ledger_3pct_def signal_a_def signal_b_def
      sizing_signal_def noice_signal_def gate_defs ledger_defs)

text \<open>
  C4 as stated fails: with a portfolio ceiling of 3 percent and 2 percent risk per trade,
  the first open (95 units, 190 at risk) leaves a portfolio risk of 0.019, below the
  ceiling, so the gate admits a second open of the same size; immediately after it the
  recomputed portfolio risk is 0.038, above the ceiling of 0.03.
\<close>

theorem second_open_exceeds_ceiling:
  "can_open_position ledger_3pct signal_a = (Inr True, ledger_3pct) \<and>
   calculate_position_size ledger_3pct signal_a = Inr 95 \<and>
   can_open_position ledger_a signal_b = (Inr True, ledger_a) \<and>
   calculate_position_size ledger_a signal_b = Inr 95 \<and>
   get_portfolio_risk ledger_ab = 0.038 \<and>
   max_portfolio_risk ledger_ab = 0.03 \<and>
   \<not> get_portfolio_risk ledger_ab \<le> max_portfolio_risk ledger_ab"
  by (simp add: ledger_a_eval ledger_ab_eval)

text \<open>
  C4, amended. The admission gate bounds the portfolio risk before the open, not after it:
  when \<open>can_open_position\<close> returns true the portfolio risk recomputed from live state is
  below \<open>max_portfolio_risk\<close>, and immediately after \<open>open_position\<close> with the computed
  quantity it is that risk plus the new position's
  \<open>|entry_price - stop_loss| * quantity / current capital\<close>. With a positive capital it
  therefore stays below \<open>max_portfolio_risk + max_risk_per_trade\<close> plus the rounding of
  the quantity, \<open>|entry_price - stop_loss| * 0.5 * 10 ^ - 8 / current capital\<close>.
\<close>

theorem portfolio_risk_after_admitted_open:
  assumes "can_open_position rm signal = (Inr True, rm1)"
    and "calculate_position_size rm1 signal = Inr qty"
    and "0 < qty"
  shows "get_portfolio_risk rm < max_portfolio_risk rm \<and>
         get_portfolio_risk (snd (open_position now rm1 signal qty)) =
           get_portfolio_risk rm
           + \<bar>TradingSignal.price signal - TradingSignal.stop_loss signal\<bar> * qty
             / current_capital rm \<and>
         (0 < current_capital rm \<longrightarrow>
            get_portfolio_risk (snd (open_position now rm1 signal qty))
              < max_portfolio_risk rm + max_risk_per_trade rm
                + \<bar>TradingSignal.price signal - TradingSignal.stop_loss signal\<bar>
                  * (1 / 2 / 10 ^ 8) / current_capital rm)"
proof -
  note adm = can_open_position_admits [OF assms(1)]
  define d where "d = \<bar>TradingSignal.price signal - TradingSignal.stop_loss signal\<bar>"
  define T where "T = total_risk_loop 0 (map snd (positions rm))"
  define cap where "cap = current_capital rm"
  define eps :: real where "eps = 1 / 2 / 10 ^ 8"
  from positive_size_capital [OF assms(2,3)] adm(4) have cap0: "cap \<noteq> 0"
    by (simp add: cap_def)
  have before: "get_portfolio_risk rm = T / cap"
    using cap0 by (simp add: get_portfolio_risk_def T_def cap_def)
  from adm(1,3) have fresh: "map_of (positions rm1) (TradingSignal.symbol signal) = None"
    by simp
  have after: "get_portfolio_risk (snd (open_position now rm1 signal qty)) = (T + d * qty) / cap"
    using cap0 open_position_risk [OF fresh, of now qty] adm(3,4)
      open_position_capital [of now rm1 signal qty]
    by (simp add: get_portfolio_risk_def T_def cap_def d_def)
  have eq: "get_portfolio_risk (snd (open_position now rm1 signal qty)) =
              get_portfolio_risk rm + d * qty / cap"
    by (simp only: after before add_divide_distrib)
  have bound: "get_portfolio_risk (snd (open_position now rm1 signal qty))
                 < max_portfolio_risk rm + max_risk_per_trade rm + d * eps / cap"
    if pos: "0 < cap"
  proof -
    define a where "a = current_capital rm1 * max_risk_per_trade rm1 / d"
    define b where "b = 0.95 * current_capital rm1 / TradingSignal.price signal"
    have d0: "0 < d"
      using positive_size(1) [OF assms(2,3)] by (simp add: d_def)
    have "qty = py_round (min a b) 8"
      unfolding a_def b_def d_def by (rule positive_size(3) [OF assms(2,3)])
    moreover have "py_round (min a b) 8 \<le> min a b + eps"
      unfolding eps_def by (rule py_round_upper)
    ultimately have "qty \<le> a + eps" by linarith
    then have "d * qty \<le> d * (a + eps)"
      using d0 by (intro mult_left_mono) simp_all
    also have "\<dots> = d * a + d * eps" by (simp only: distrib_left)
    also have "d * a = cap * max_risk_per_trade rm"
      using d0 by (simp add: a_def adm(4,5) cap_def)
    finally have "d * qty / cap \<le> (cap * max_risk_per_trade rm + d * eps) / cap"
      using pos by (intro divide_right_mono) simp_all
    also have "\<dots> = max_risk_per_trade rm + d * eps / cap"
      using pos by (simp add: add_divide_distrib)
    finally have "d * qty / cap \<le> max_risk_per_trade rm + d * eps / cap" .
    with adm(2) eq show ?thesis by linarith
  qed
  from adm(2) eq bound show ?thesis
    by (simp only: d_def cap_def eps_def) simp
qed

theorem portfolio_risk_after_admitted_open_witness:
  "can_open_position ledger_a signal_b = (Inr True, ledger_a) \<and>
   calculate_position_size ledger_a signal_b = Inr 95 \<and>
   (0::real) < 95 \<and>
   0 < current_capital ledger_a \<and>
   get_portfolio_risk ledger_a < max_portfolio_risk ledger_a \<and>
   get_portfolio_risk (snd (open_position 1 ledger_a signal_b 95)) =
     get_portfolio_risk ledger_a
     + \<bar>TradingSignal.price signal_b - TradingSignal.stop_loss signal_b\<bar> * 95
       / current_capital ledger_a \<and>
   get_portfolio_risk (snd (open_position 1 ledger_a signal_b 95))
     < max_portfolio_risk ledger_a + max_risk_per_trade ledger_a
       + \<bar>TradingSignal.price signal_b - TradingSignal.stop_loss signal_b\<bar>
         * (1 / 2 / 10 ^ 8) / current_capital ledger_a"
proof -
  have pos: "(0::real) < 95" by simp
  have cap: "0 < current_capital ledger_a" by (simp add: ledger_ab_eval)
  from portfolio_risk_after_admitted_open [OF ledger_ab_eval(1) ledger_ab_eval(2) pos, of 1]
       ledger_ab_eval(1) ledger_ab_eval(2) pos cap
  show ?thesis by blast
qed

end
